theory Spec2Isabelle
  imports Complex_Main
begin

section \<open>Browser files\<close>

text \<open>
  The three attributes of a browser \<open>File\<close> object that the pages read: \<open>file.name\<close>,
  \<open>file.size\<close> (bytes) and \<open>file.type\<close> (the MIME type, empty when the browser does not
  know it).
\<close>

record File =
  file_name :: string
  file_size :: nat
  file_type :: string

section \<open>Purchase proof-upload form (BuyCreditsPage)\<close>

record PackageData =
  pkg_id :: string
  pkg_name :: string
  pkg_credits :: nat
  pkg_price :: nat
  pkg_price_formatted :: string

text \<open>
  The outgoing request of \<open>handleSubmit\<close>: a multipart POST to \<open>/api/credits/purchase\<close>
  with the fields \<open>user_id\<close>, \<open>package_id\<close> and \<open>proof\<close>.
\<close>

datatype purchase_request = PostPurchase string string File

text \<open>
  The \<open>useState\<close> cells of the page that the two handlers read or write, the signed-in
  user's id (\<open>None\<close> when \<open>useAuth\<close> gives no user) and the requests sent so far.
\<close>

record BuyCredits =
  selectedPackage :: "PackageData option"
  proofFile :: "File option"
  submitting :: bool
  success :: bool
  bc_error :: "string option"
  bc_user :: "string option"
  bc_sent :: "purchase_request list"

definition allowedTypes :: "string list" where
  "allowedTypes = [''image/jpeg'', ''image/png'', ''image/webp'']"

definition MAX_PROOF_SIZE :: nat where
  "MAX_PROOF_SIZE = 5 * 1024 * 1024"

text \<open>
  \<open>handleFileChange\<close>: the argument is \<open>e.target.files?.[0]\<close>. The two early returns
  leave \<open>proofFile\<close> as it was.
\<close>

definition handleFileChange :: "File option \<Rightarrow> BuyCredits \<Rightarrow> BuyCredits" where
  "handleFileChange fo s =
     (case fo of
        None \<Rightarrow> s
      | Some file \<Rightarrow>
          if file_type file \<notin> set allowedTypes
          then s\<lparr>bc_error := Some ''Hanya file gambar (JPEG, PNG, WebP) yang diizinkan''\<rparr>
          else if file_size file > MAX_PROOF_SIZE
          then s\<lparr>bc_error := Some ''Ukuran file maksimal 5MB''\<rparr>
          else s\<lparr>proofFile := Some file, bc_error := None\<rparr>)"

text \<open>The submit button carries \<open>disabled={!proofFile || submitting}\<close>.\<close>

definition submitDisabled :: "BuyCredits \<Rightarrow> bool" where
  "submitDisabled s = (proofFile s = None \<or> submitting s)"

text \<open>
  \<open>handleSubmit\<close> up to its \<open>await fetch\<close>: the guard, the two state writes and the
  request that leaves the page.
\<close>

definition handleSubmit :: "BuyCredits \<Rightarrow> BuyCredits" where
  "handleSubmit s =
     (case (selectedPackage s, proofFile s, bc_user s) of
        (Some pkg, Some proof, Some uid) \<Rightarrow>
          s\<lparr>submitting := True, bc_error := None,
            bc_sent := bc_sent s @ [PostPurchase uid (pkg_id pkg) proof]\<rparr>
      | _ \<Rightarrow> s\<lparr>bc_error := Some ''Pilih paket dan upload bukti transfer''\<rparr>)"

text \<open>
  The rest of \<open>handleSubmit\<close>, run when the request settles: \<open>Inl msg\<close> is a thrown error
  with that message (\<open>fetch\<close> or \<open>res.json()\<close> rejected), \<open>Inr (ok, detail)\<close> a parsed
  response with \<open>res.ok\<close> and the body's \<open>detail\<close> field.
\<close>

definition handleSubmit_settle :: "string + (bool \<times> string option) \<Rightarrow> BuyCredits \<Rightarrow> BuyCredits" where
  "handleSubmit_settle r s =
     (case r of
        Inl msg \<Rightarrow> s\<lparr>bc_error := Some msg, submitting := False\<rparr>
      | Inr (ok, detail) \<Rightarrow>
          if \<not> ok
          then s\<lparr>bc_error := Some (case detail of
                                     None \<Rightarrow> ''Gagal mengirim pembelian''
                                   | Some d \<Rightarrow> if d = [] then ''Gagal mengirim pembelian'' else d),
                 submitting := False\<rparr>
          else s\<lparr>success := True, submitting := False\<rparr>)"

section \<open>Dashboard page: data\<close>

text \<open>
  The \<open>status\<close> field of a \<open>FileItem\<close> is the union
  \<open>"processing" | "completed" | "error"\<close>.
\<close>

datatype Status = Processing | Completed | Error

record Summary =
  ringkasan_singkat :: string
  poin_penting :: "string list"
  action_items :: "string list"

text \<open>
  The parsed JSON body \<open>data\<close> of a response of \<open>/api/process\<close> or
  \<open>/api/retry-summary\<close>. The page reads it untyped and casts it to \<open>ProcessingResult\<close>
  or \<open>PartialResult\<close> without a check, so the record has the fields of both interfaces
  (plus \<open>detail\<close>, which the error paths read), each typed as the interfaces declare it
  and each optional: \<open>None\<close> is a field the body does not have.
\<close>

record ApiBody =
  b_status :: "string option"
  b_stage :: "string option"
  b_original_filename :: "string option"
  b_duration_minutes :: "rat option"
  b_transcript :: "string option"
  b_summary :: "Summary option"
  b_cache_key :: "string option"
  b_error :: "string option"
  b_detail :: "string option"
  b_message :: "string option"

text \<open>
  \<open>crypto.randomUUID()\<close> is taken as a supply of fresh identifiers: the n-th
  identifier handed out is the number n.
\<close>

type_synonym uuid = nat

record FileItem =
  fi_id :: uuid
  fi_name :: string
  fi_status :: Status
  fi_progress :: "nat option"
  fi_result :: "ApiBody option"
  fi_partialResult :: "ApiBody option"
  fi_error :: "string option"

text \<open>The \<open>userCredits\<close> state cell; JavaScript numbers are taken as rationals.\<close>

record UserCredits =
  uc_total :: rat
  uc_free :: rat
  uc_paid :: rat
  uc_maxDuration :: rat

text \<open>The body of \<open>GET /api/credits/balance\<close> as \<open>fetchUserCredits\<close> reads it.\<close>

record BalanceBody =
  total_credits :: rat
  free_credits :: rat
  paid_credits :: rat
  max_duration :: "rat option"

text \<open>
  What the page does to the world, in the order it does it: \<open>alert(...)\<close>,
  \<open>e.target.value = ""\<close>, \<open>document.createElement('audio' | 'video')\<close> and
  \<open>fetch(...)\<close>. The duration alert interpolates two numbers into its text; it is kept
  as a constructor holding \<open>durationMins\<close> and \<open>max\<close>.
\<close>

datatype media_kind = Audio | Video

datatype message = Text string | DurationExceeded rat rat

datatype request =
    PostProcess File "string option"
  | GetBalance string
  | PostRetrySummary string

datatype effect =
    Alert message
  | ResetInput
  | CreateElement media_kind
  | Fetch request

text \<open>
  An \<open>await\<close> suspends its handler until a later event resumes it. A suspended handler
  is recorded with the values its closure holds: the duration probe keeps the file and
  the maximum duration of the render it started in, the upload keeps \<open>fileId\<close>, the
  retry keeps \<open>selectedFileId\<close>.
\<close>

datatype continuation =
    DurationProbe File rat
  | ProcessCall uuid
  | RetryCall uuid
  | BalanceCall

text \<open>
  How an awaited \<open>fetch\<close> followed by \<open>response.json()\<close> ends: either of the two
  throws an \<open>Error\<close> with a message, or there is a response with its \<open>ok\<close> flag and its
  parsed body.
\<close>

datatype outcome = Threw string | Responded bool ApiBody

text \<open>
  The state cells of \<open>DashboardPage\<close>, the id of the signed-in user (the handlers are
  only rendered once \<open>user\<close> is set, so the closures they call hold a user), the
  identifier supply, the suspended handlers and the effects so far.
\<close>

record Dashboard =
  files :: "FileItem list"
  selectedFileId :: "uuid option"
  isDragging :: bool
  isRetrying :: bool
  userCredits :: "UserCredits option"
  user_id :: string
  next_uuid :: uuid
  in_flight :: "continuation list"
  effects :: "effect list"

section \<open>Dashboard page: validation\<close>

definition ALLOWED_EXTENSIONS :: "string list" where
  "ALLOWED_EXTENSIONS =
     [''.mp3'', ''.wav'', ''.m4a'', ''.ogg'',
      ''.mp4'', ''.mov'', ''.mkv'', ''.avi'', ''.webm'']"

definition MAX_FILE_SIZE :: nat where
  "MAX_FILE_SIZE = 50 * 1024 * 1024"

text \<open>
  \<open>name.split(".").pop()\<close>: the text after the last dot, the whole name when it has no
  dot. The array \<open>split\<close> returns is never empty, so \<open>pop\<close> always yields a string.
\<close>

definition last_segment :: "string \<Rightarrow> string" where
  "last_segment s = rev (takeWhile (\<lambda>c. c \<noteq> CHR ''.'') (rev s))"

text \<open>
  Text is kept as its UTF-8 bytes, so a character beyond ASCII is a run of bytes with
  the top bit set, and the byte of the dot never occurs inside one.
\<close>

definition is_ascii :: "string \<Rightarrow> bool" where
  "is_ascii s = list_all (\<lambda>c. \<not> digit7 c) s"

text \<open>
  \<open>String.prototype.toLowerCase\<close> belongs to the JavaScript engine, not to the page.
  On text that is all ASCII it turns the letters A to Z into a to z and keeps every
  other character. What it does to text with a character beyond ASCII is the engine's
  Unicode case mapping, which is taken as the parameter \<open>lc\<close>: nothing is assumed
  of it, so what is proved holds for the mapping of every engine. Every function that
  reaches \<open>validateFile\<close> carries this parameter.
\<close>

definition toLowerCase :: "(string \<Rightarrow> string) \<Rightarrow> string \<Rightarrow> string" where
  "toLowerCase lc s =
     (if is_ascii s
      then map (\<lambda>c. case map_of (zip ''ABCDEFGHIJKLMNOPQRSTUVWXYZ''
                                      ''abcdefghijklmnopqrstuvwxyz'') c of
                      None \<Rightarrow> c
                    | Some d \<Rightarrow> d) s
      else lc s)"

definition extension :: "(string \<Rightarrow> string) \<Rightarrow> File \<Rightarrow> string" where
  "extension lc file = ''.'' @ toLowerCase lc (last_segment (file_name file))"

definition validateFile :: "(string \<Rightarrow> string) \<Rightarrow> File \<Rightarrow> string option" where
  "validateFile lc file =
     (if extension lc file \<notin> set ALLOWED_EXTENSIONS then Some ''Format file tidak didukung''
      else if file_size file > MAX_FILE_SIZE then Some ''File terlalu besar (max 50MB)''
      else None)"

text \<open>\<open>userCredits?.maxDuration || 20\<close>: zero is falsy.\<close>

definition getMaxDuration :: "Dashboard \<Rightarrow> rat" where
  "getMaxDuration s =
     (case userCredits s of
        None \<Rightarrow> 20
      | Some c \<Rightarrow> if uc_maxDuration c = 0 then 20 else uc_maxDuration c)"

definition startsWith :: "string \<Rightarrow> string \<Rightarrow> bool" where
  "startsWith s p = (take (length p) s = p)"

text \<open>
  \<open>validateDuration\<close> up to the point where its promise is returned: it is already
  resolved with \<open>null\<close> for a file that is neither audio nor video (both branches of
  the extension test there resolve \<open>null\<close>), or a media element has been created and
  the promise waits for \<open>onloadedmetadata\<close> or \<open>onerror\<close>.
\<close>

datatype probe = Resolved "message option" | Probing media_kind

definition validateDuration :: "File \<Rightarrow> probe" where
  "validateDuration file =
     (let isAudio = startsWith (file_type file) ''audio/'';
          isVideo = startsWith (file_type file) ''video/''
      in if \<not> isAudio \<and> \<not> isVideo then Resolved None
         else Probing (if isAudio then Audio else Video))"

text \<open>
  The \<open>onloadedmetadata\<close> callback, given \<open>element.duration\<close> in seconds and the
  maximum of the closure.
\<close>

definition onloadedmetadata :: "rat \<Rightarrow> rat \<Rightarrow> message option" where
  "onloadedmetadata duration mx =
     (let durationMins = duration / 60
      in if durationMins > mx then Some (DurationExceeded durationMins mx) else None)"

definition isProcessing :: "Dashboard \<Rightarrow> bool" where
  "isProcessing s = list_ex (\<lambda>f. fi_status f = Processing) (files s)"

definition checkCredits :: "Dashboard \<Rightarrow> bool" where
  "checkCredits s =
     (case userCredits s of
        None \<Rightarrow> False
      | Some c \<Rightarrow> uc_free c + uc_paid c \<ge> 1)"

section \<open>Dashboard page: upload\<close>

definition alert :: "message \<Rightarrow> Dashboard \<Rightarrow> Dashboard" where
  "alert m s = s\<lparr>effects := effects s @ [Alert m]\<rparr>"

text \<open>
  \<open>fetchUserCredits\<close> up to its \<open>fetch\<close>; the \<open>then\<close> chain is
  \<open>fetchUserCredits_settle\<close>, where \<open>None\<close> is the rejection that \<open>catch\<close> logs.
\<close>

definition fetchUserCredits :: "Dashboard \<Rightarrow> Dashboard" where
  "fetchUserCredits s =
     s\<lparr>effects := effects s @ [Fetch (GetBalance (user_id s))],
       in_flight := in_flight s @ [BalanceCall]\<rparr>"

definition fetchUserCredits_settle :: "BalanceBody option \<Rightarrow> Dashboard \<Rightarrow> Dashboard" where
  "fetchUserCredits_settle r s =
     (case r of
        None \<Rightarrow> s
      | Some data \<Rightarrow>
          s\<lparr>userCredits := Some
              \<lparr>uc_total = total_credits data,
               uc_free = free_credits data,
               uc_paid = paid_credits data,
               uc_maxDuration = (case max_duration data of
                                   None \<Rightarrow> 20
                                 | Some m \<Rightarrow> if m = 0 then 20 else m)\<rparr>\<rparr>)"

text \<open>
  \<open>updateFile\<close> inside \<open>processFile\<close>: the spread \<open>{...f, ...updates}\<close> is a function
  on the item, applied to every item whose id is \<open>fileId\<close>.
\<close>

definition updateFile :: "uuid \<Rightarrow> (FileItem \<Rightarrow> FileItem) \<Rightarrow> FileItem list \<Rightarrow> FileItem list" where
  "updateFile fileId updates prev = map (\<lambda>f. if fi_id f = fileId then updates f else f) prev"

text \<open>\<open>processFile\<close> up to \<open>await fetch\<close>.\<close>

definition processFile :: "File \<Rightarrow> Dashboard \<Rightarrow> Dashboard" where
  "processFile file s =
     (let fileId = next_uuid s;
          fileItem = \<lparr>fi_id = fileId, fi_name = file_name file, fi_status = Processing,
                      fi_progress = Some 0, fi_result = None, fi_partialResult = None,
                      fi_error = None\<rparr>
      in s\<lparr>files := updateFile fileId (\<lambda>f. f\<lparr>fi_progress := Some 10\<rparr>) (fileItem # files s),
           selectedFileId := Some fileId,
           next_uuid := Suc fileId,
           effects := effects s @
             [Fetch (PostProcess file (if user_id s = [] then None else Some (user_id s)))],
           in_flight := in_flight s @ [ProcessCall fileId]\<rparr>)"

text \<open>\<open>data.error || data.detail || "Terjadi kesalahan"\<close>: the empty string is falsy.\<close>

definition truthy :: "string option \<Rightarrow> bool" where
  "truthy v = (case v of None \<Rightarrow> False | Some t \<Rightarrow> t \<noteq> [])"

definition process_error_text :: "ApiBody \<Rightarrow> string" where
  "process_error_text data =
     (if truthy (b_error data) then the (b_error data)
      else if truthy (b_detail data) then the (b_detail data)
      else ''Terjadi kesalahan'')"

text \<open>The rest of \<open>processFile\<close>, from the settled request on, \<open>catch\<close> included.\<close>

definition processFile_settle :: "uuid \<Rightarrow> outcome \<Rightarrow> Dashboard \<Rightarrow> Dashboard" where
  "processFile_settle fileId r s =
     (case r of
        Threw msg \<Rightarrow>
          s\<lparr>files := updateFile fileId
                (\<lambda>f. f\<lparr>fi_status := Error, fi_progress := Some 100, fi_error := Some msg\<rparr>)
                (files s)\<rparr>
      | Responded ok data \<Rightarrow>
          if \<not> ok then
            if b_status data = Some ''partial'' then
              s\<lparr>files := updateFile fileId
                    (\<lambda>f. f\<lparr>fi_status := Error, fi_progress := Some 100,
                           fi_partialResult := Some data\<rparr>)
                    (files s)\<rparr>
            else
              s\<lparr>files := updateFile fileId
                    (\<lambda>f. f\<lparr>fi_status := Error, fi_progress := Some 100,
                           fi_error := Some (process_error_text data)\<rparr>)
                    (files s)\<rparr>
          else
            fetchUserCredits
              (s\<lparr>files := updateFile fileId
                     (\<lambda>f. f\<lparr>fi_status := Completed, fi_progress := Some 100,
                            fi_result := Some data\<rparr>)
                     (files s)\<rparr>))"

text \<open>
  The end of both handlers, once \<open>durationError\<close> is known: alert and return, or
  \<open>processFile(file)\<close>.
\<close>

definition afterDuration :: "File \<Rightarrow> message option \<Rightarrow> Dashboard \<Rightarrow> Dashboard" where
  "afterDuration file durationError s =
     (case durationError of
        Some m \<Rightarrow> alert m s
      | None \<Rightarrow> processFile file s)"

text \<open>
  The block \<open>if (file) { ... }\<close>, the same text in \<open>handleFileInput\<close> and
  \<open>handleDrop\<close>. A promise that is already resolved lets the handler run on before any
  other event; a probe suspends it.
\<close>

definition chooseFile :: "(string \<Rightarrow> string) \<Rightarrow> File option \<Rightarrow> Dashboard \<Rightarrow> Dashboard" where
  "chooseFile lc fo s =
     (case fo of
        None \<Rightarrow> s
      | Some file \<Rightarrow>
          (case validateFile lc file of
             Some error \<Rightarrow> alert (Text error) s
           | None \<Rightarrow>
               (case validateDuration file of
                  Resolved durationError \<Rightarrow> afterDuration file durationError s
                | Probing kind \<Rightarrow>
                    s\<lparr>effects := effects s @ [CreateElement kind],
                      in_flight := in_flight s @ [DurationProbe file (getMaxDuration s)]\<rparr>)))"

definition handleFileInput :: "(string \<Rightarrow> string) \<Rightarrow> File option \<Rightarrow> Dashboard \<Rightarrow> Dashboard" where
  "handleFileInput lc fo s =
     (if isProcessing s then s
      else if \<not> checkCredits s then
        s\<lparr>effects := effects s @
             [Alert (Text ''Credit tidak cukup. Silakan top up credit Anda.''), ResetInput]\<rparr>
      else chooseFile lc fo (s\<lparr>effects := effects s @ [ResetInput]\<rparr>))"

definition handleDrop :: "(string \<Rightarrow> string) \<Rightarrow> File option \<Rightarrow> Dashboard \<Rightarrow> Dashboard" where
  "handleDrop lc fo s =
     (let s1 = s\<lparr>isDragging := False\<rparr>
      in if isProcessing s1 then s1
         else if \<not> checkCredits s1 then
           alert (Text ''Credit tidak cukup. Silakan top up credit Anda.'') s1
         else chooseFile lc fo s1)"

definition handleDragOver :: "Dashboard \<Rightarrow> Dashboard" where
  "handleDragOver s = (if \<not> isProcessing s then s\<lparr>isDragging := True\<rparr> else s)"

section \<open>Dashboard page: retry\<close>

text \<open>\<open>files.find(f => f.id === selectedFileId)\<close>.\<close>

definition selectedFile :: "Dashboard \<Rightarrow> FileItem option" where
  "selectedFile s =
     (case selectedFileId s of
        None \<Rightarrow> None
      | Some i \<Rightarrow> find (\<lambda>f. fi_id f = i) (files s))"

text \<open>
  \<open>handleRetrySummarization\<close> up to \<open>await fetch\<close>. The request body is
  \<open>JSON.stringify({ cache_key })\<close>: \<open>PostRetrySummary k\<close> is the POST whose JSON body
  has the one field \<open>cache_key\<close> with value \<open>k\<close>.
\<close>

definition handleRetrySummarization :: "Dashboard \<Rightarrow> Dashboard" where
  "handleRetrySummarization s =
     (case selectedFile s of
        None \<Rightarrow> s
      | Some f \<Rightarrow>
          (case fi_partialResult f of
             None \<Rightarrow> s
           | Some p \<Rightarrow>
               if \<not> truthy (b_cache_key p) then s
               else s\<lparr>isRetrying := True,
                      effects := effects s @ [Fetch (PostRetrySummary (the (b_cache_key p)))],
                      in_flight := in_flight s @ [RetryCall (fi_id f)]\<rparr>))"

text \<open>
  \<open>new Error(data.error || data.detail)\<close>: the message is the first truthy field, else
  \<open>detail\<close> as it is, and the empty text for \<open>undefined\<close>.
\<close>

definition retry_error_text :: "ApiBody \<Rightarrow> string" where
  "retry_error_text data =
     (if truthy (b_error data) then the (b_error data)
      else (case b_detail data of None \<Rightarrow> [] | Some d \<Rightarrow> d))"

text \<open>
  The rest of \<open>handleRetrySummarization\<close>: \<open>catch\<close> only alerts, \<open>finally\<close> clears
  \<open>isRetrying\<close>.
\<close>

definition handleRetrySummarization_settle :: "uuid \<Rightarrow> outcome \<Rightarrow> Dashboard \<Rightarrow> Dashboard" where
  "handleRetrySummarization_settle sel r s =
     (case r of
        Threw msg \<Rightarrow> (alert (Text msg) s)\<lparr>isRetrying := False\<rparr>
      | Responded ok data \<Rightarrow>
          if \<not> ok then (alert (Text (retry_error_text data)) s)\<lparr>isRetrying := False\<rparr>
          else
            (fetchUserCredits
               (s\<lparr>files := map (\<lambda>f. if fi_id f = sel
                                      then f\<lparr>fi_status := Completed, fi_result := Some data,
                                             fi_partialResult := None, fi_error := None\<rparr>
                                      else f) (files s)\<rparr>))
            \<lparr>isRetrying := False\<rparr>)"

section \<open>Dashboard page: events\<close>

text \<open>
  The page is single-threaded: one event runs to its end or to its next \<open>await\<close>
  before another starts, and a handler reads the state of the latest render. The events
  are the user's actions on the upload controls, the file list and the retry button, and
  the settling of what a handler waits for: the metadata of a probed file
  (\<open>onloadedmetadata\<close> with \<open>element.duration\<close>, or \<open>onerror\<close>) and the
  responses of the three requests. A settling event names the suspended handler it
  resumes, by the values that handler's closure holds, and is ignored when no such
  handler is waiting. The other handlers of the page (user menu, section toggles,
  navigation, report download) write none of the cells kept here.
\<close>

datatype event =
    FileInput "File option"
  | Drop "File option"
  | DragOver
  | DragLeave
  | SelectFile uuid
  | MetadataLoaded File rat rat
  | MetadataError File rat
  | ProcessSettled uuid outcome
  | RetryClick
  | RetrySettled uuid outcome
  | BalanceSettled "BalanceBody option"

definition resume :: "continuation \<Rightarrow> (Dashboard \<Rightarrow> Dashboard) \<Rightarrow> Dashboard \<Rightarrow> Dashboard" where
  "resume k body s =
     (if k \<in> set (in_flight s) then body (s\<lparr>in_flight := remove1 k (in_flight s)\<rparr>) else s)"

fun step :: "(string \<Rightarrow> string) \<Rightarrow> event \<Rightarrow> Dashboard \<Rightarrow> Dashboard" where
  "step lc (FileInput fo) s = handleFileInput lc fo s"
| "step lc (Drop fo) s = handleDrop lc fo s"
| "step lc DragOver s = handleDragOver s"
| "step lc DragLeave s = s\<lparr>isDragging := False\<rparr>"
| "step lc (SelectFile i) s = s\<lparr>selectedFileId := Some i\<rparr>"
| "step lc (MetadataLoaded file mx duration) s =
     resume (DurationProbe file mx) (afterDuration file (onloadedmetadata duration mx)) s"
| "step lc (MetadataError file mx) s =
     resume (DurationProbe file mx) (afterDuration file None) s"
| "step lc (ProcessSettled fileId r) s = resume (ProcessCall fileId) (processFile_settle fileId r) s"
| "step lc RetryClick s = handleRetrySummarization s"
| "step lc (RetrySettled sel r) s = resume (RetryCall sel) (handleRetrySummarization_settle sel r) s"
| "step lc (BalanceSettled r) s = resume BalanceCall (fetchUserCredits_settle r) s"

fun run :: "(string \<Rightarrow> string) \<Rightarrow> event list \<Rightarrow> Dashboard \<Rightarrow> Dashboard" where
  "run lc [] s = s"
| "run lc (e # es) s = run lc es (step lc e s)"

text \<open>The page as mounted: empty state, and the effect hook has called \<open>fetchUserCredits\<close>.\<close>

definition mounted :: "string \<Rightarrow> Dashboard" where
  "mounted uid =
     fetchUserCredits
       \<lparr>files = [], selectedFileId = None, isDragging = False, isRetrying = False,
        userCredits = None, user_id = uid, next_uuid = 0, in_flight = [], effects = []\<rparr>"

section \<open>Result view\<close>

text \<open>
  What a JSX expression renders: elements, with their tag or class name and their
  children, and text. \<open>cond && <x/>\<close> with a false condition renders nothing.
\<close>

datatype node = Elem string "node list" | TextNode string | NumberNode nat

text \<open>
  The content of the Key Points and Action Items sections of the dashboard's result
  panel, below their headers; the first argument is \<open>openSections.keyPoints\<close> or
  \<open>openSections.actionItems\<close>.
\<close>

definition dashboard_key_points :: "bool \<Rightarrow> string list \<Rightarrow> node list" where
  "dashboard_key_points is_open points =
     (if is_open
      then [Elem ''result-section-content''
              (map (\<lambda>point. Elem ''key-point''
                      [Elem ''key-point-bullet'' [], Elem ''span'' [TextNode point]]) points)]
      else [])"

definition dashboard_action_items :: "bool \<Rightarrow> string list \<Rightarrow> node list" where
  "dashboard_action_items is_open items =
     (if is_open
      then [Elem ''result-section-content''
              (if length items > 0
               then map (\<lambda>item. Elem ''action-item''
                           [Elem ''action-item-checkbox'' [],
                            Elem ''action-item-text'' [TextNode item]]) items
               else [Elem ''p'' [TextNode ''Tidak ada action items terdeteksi.'']])]
      else [])"

text \<open>
  The same two sections in the \<open>ResultDisplay\<close> component; the first argument is
  \<open>expandedSections.has("points")\<close> or \<open>expandedSections.has("actions")\<close>. The
  numbered badge of a point holds \<open>index + 1\<close>.
\<close>

definition ResultDisplay_points :: "bool \<Rightarrow> string list \<Rightarrow> node list" where
  "ResultDisplay_points expanded points =
     (if expanded
      then [Elem ''result-content''
              [Elem ''ul''
                 (map (\<lambda>(index, point). Elem ''li''
                         [Elem ''span'' [NumberNode (index + 1)], Elem ''span'' [TextNode point]])
                      (zip [0..<length points] points))]]
      else [])"

definition ResultDisplay_actions :: "bool \<Rightarrow> string list \<Rightarrow> node list" where
  "ResultDisplay_actions expanded items =
     (if expanded
      then [Elem ''result-content''
              [if length items > 0
               then Elem ''space-y-2''
                      (map (\<lambda>item. Elem ''action-item''
                              [Elem ''action-item-icon'' [Elem ''svg'' []],
                               Elem ''span'' [TextNode item]]) items)
               else Elem ''p'' [TextNode ''Tidak ada action items yang terdeteksi'']]]
      else [])"

text \<open>Whether anything rendered holds text: an element tree without any is blank.\<close>

fun has_text :: "node \<Rightarrow> bool" where
  "has_text (TextNode t) = True"
| "has_text (NumberNode n) = True"
| "has_text (Elem c children) = list_ex has_text children"

section \<open>Admin console\<close>

record Purchase =
  p_id :: string
  p_user_id :: string
  p_package_id :: string
  p_credits :: nat
  p_amount :: nat
  p_status :: string
  p_proof_url :: string
  p_proof_filename :: string
  p_admin_notes :: "string option"
  p_created_at :: string
  p_verified_at :: "string option"

text \<open>
  The state cells of \<open>AdminPage\<close> and the \<open>admin_key\<close> entry of \<open>localStorage\<close>
  (\<open>None\<close> when the entry is absent).
\<close>

record Admin =
  purchases :: "Purchase list"
  history :: "Purchase list"
  adm_loading :: bool
  adminKey :: string
  authenticated :: bool
  selectedPurchase :: "Purchase option"
  actionLoading :: "string option"
  adm_error :: "string option"
  stored_admin_key :: "string option"

text \<open>
  A response of one of the two list endpoints: its HTTP status and what \<open>json()\<close>
  gives: \<open>None\<close> when it throws, else the body's \<open>purchases\<close> field, itself absent or
  a list.
\<close>

record ListResponse =
  lr_status :: nat
  lr_json :: "Purchase list option option"

text \<open>
  \<open>fetchData\<close> from the settled \<open>Promise.all\<close> on; \<open>None\<close> is a rejected \<open>fetch\<close>. Only
  \<open>pendingRes.status\<close> is compared with 401.
\<close>

definition fetchData :: "(ListResponse \<times> ListResponse) option \<Rightarrow> Admin \<Rightarrow> Admin" where
  "fetchData r s =
     (case r of
        None \<Rightarrow> s\<lparr>adm_error := Some ''Gagal memuat data'', adm_loading := False\<rparr>
      | Some (pendingRes, historyRes) \<Rightarrow>
          if lr_status pendingRes = 401 then
            s\<lparr>adm_error := Some ''Admin key tidak valid'', authenticated := False,
              stored_admin_key := None, adm_loading := False\<rparr>
          else
            (case (lr_json pendingRes, lr_json historyRes) of
               (Some pendingData, Some historyData) \<Rightarrow>
                 s\<lparr>purchases := (case pendingData of None \<Rightarrow> [] | Some ps \<Rightarrow> ps),
                   history := (case historyData of None \<Rightarrow> [] | Some ps \<Rightarrow> ps),
                   adm_loading := False\<rparr>
             | _ \<Rightarrow> s\<lparr>adm_error := Some ''Gagal memuat data'', adm_loading := False\<rparr>))"

datatype action = approve | reject

text \<open>\<open>res.ok\<close>: the status is in the range 200 to 299.\<close>

definition res_ok :: "nat \<Rightarrow> bool" where
  "res_ok st = (200 \<le> st \<and> st \<le> 299)"

text \<open>
  \<open>handleAction\<close> from the settled \<open>fetch\<close> on. \<open>captured\<close> is the \<open>purchases\<close> list of
  the render the handler was called in, \<open>now\<close> is \<open>new Date().toISOString()\<close>, and the
  response is its HTTP status, \<open>None\<close> for a rejected \<open>fetch\<close>. Every response that is
  not ok, 401 included, throws into the one \<open>catch\<close>.
\<close>

definition handleAction :: "Purchase list \<Rightarrow> string \<Rightarrow> action \<Rightarrow> string \<Rightarrow> nat option \<Rightarrow> Admin \<Rightarrow> Admin" where
  "handleAction captured purchaseId act now res s =
     (if (case res of None \<Rightarrow> True | Some st \<Rightarrow> \<not> res_ok st)
      then s\<lparr>adm_error := Some ''Aksi gagal'', actionLoading := None\<rparr>
      else
        s\<lparr>history := (case find (\<lambda>p. p_id p = purchaseId) captured of
                         None \<Rightarrow> history s
                       | Some processed \<Rightarrow>
                           processed\<lparr>p_status := (if act = approve then ''approved'' else ''rejected''),
                                     p_verified_at := Some now\<rparr> # history s),
          purchases := filter (\<lambda>p. p_id p \<noteq> purchaseId) (purchases s),
          selectedPurchase := None,
          actionLoading := None\<rparr>)"

text \<open>The login screen is what the page renders when \<open>authenticated\<close> is false.\<close>

definition shows_login :: "Admin \<Rightarrow> bool" where
  "shows_login s = (\<not> authenticated s)"

section \<open>Observations on a state\<close>

text \<open>
  The network calls and the media elements among the effects of a state, the two alerts
  of the pre-submission checks by the names the specification gives them, and what it
  means for a session to have at most one of \<open>result\<close>, \<open>partialResult\<close> and
  \<open>error\<close> defined, or none of them.
\<close>

fun is_fetch :: "effect \<Rightarrow> bool" where
  "is_fetch (Fetch r) = True"
| "is_fetch e = False"

fun is_element :: "effect \<Rightarrow> bool" where
  "is_element (CreateElement k) = True"
| "is_element e = False"

definition network_calls :: "Dashboard \<Rightarrow> effect list" where
  "network_calls s = filter is_fetch (effects s)"

definition media_elements :: "Dashboard \<Rightarrow> effect list" where
  "media_elements s = filter is_element (effects s)"

definition UnsupportedFormat :: effect where
  "UnsupportedFormat = Alert (Text ''Format file tidak didukung'')"

definition InsufficientCredits :: effect where
  "InsufficientCredits = Alert (Text ''Credit tidak cukup. Silakan top up credit Anda.'')"

definition exclusive :: "FileItem \<Rightarrow> bool" where
  "exclusive f =
     (of_bool (fi_result f \<noteq> None) + of_bool (fi_partialResult f \<noteq> None)
        + of_bool (fi_error f \<noteq> None) \<le> (1::nat))"

definition blank :: "FileItem \<Rightarrow> bool" where
  "blank f = (fi_result f = None \<and> fi_partialResult f = None \<and> fi_error f = None)"




section \<open>An invariant of the dashboard\<close>

text \<open>
  Identifiers of sessions are below the next fresh one and every session is exclusive;
  an upload in flight belongs to a session none of whose three fields is set yet, no
  upload is in flight twice, and a retry in flight belongs to a session whose upload has
  settled.
\<close>

definition files_ok :: "FileItem list \<Rightarrow> uuid \<Rightarrow> bool" where
  "files_ok fs n = (\<forall>f \<in> set fs. fi_id f < n \<and> exclusive f)"

definition calls_ok :: "FileItem list \<Rightarrow> uuid \<Rightarrow> continuation list \<Rightarrow> bool" where
  "calls_ok fs n q =
     (\<forall>i. (ProcessCall i \<in> set q \<longrightarrow> i < n \<and> (\<forall>f \<in> set fs. fi_id f = i \<longrightarrow> blank f))
        \<and> count_list q (ProcessCall i) \<le> 1
        \<and> (RetryCall i \<in> set q \<longrightarrow> i < n \<and> ProcessCall i \<notin> set q))"

definition consistent :: "Dashboard \<Rightarrow> bool" where
  "consistent s =
     (files_ok (files s) (next_uuid s) \<and> calls_ok (files s) (next_uuid s) (in_flight s))"

section \<open>Example inputs and states\<close>

text \<open>
  Files, response bodies and states of the page used to exercise the theorems below.
  Each state is shown to be reached from the mounted page.
\<close>

definition notes_txt :: File where
  "notes_txt = \<lparr>file_name = ''notes.txt'', file_size = 2048, file_type = ''text/plain''\<rparr>"

definition meeting_mkv :: File where
  "meeting_mkv = \<lparr>file_name = ''meeting.mkv'', file_size = 4096, file_type = []\<rparr>"

definition talk_mkv :: File where
  "talk_mkv = \<lparr>file_name = ''talk.MKV'', file_size = 4096, file_type = []\<rparr>"

definition standup_mp3 :: File where
  "standup_mp3 = \<lparr>file_name = ''standup.mp3'', file_size = 4096, file_type = ''audio/mpeg''\<rparr>"

definition demo_mp4 :: File where
  "demo_mp4 = \<lparr>file_name = ''demo.mp4'', file_size = 8192, file_type = ''video/mp4''\<rparr>"

definition balance_of :: "rat \<Rightarrow> BalanceBody" where
  "balance_of n = \<lparr>total_credits = n, free_credits = n, paid_credits = 0, max_duration = Some 20\<rparr>"

definition credits_of :: "rat \<Rightarrow> UserCredits" where
  "credits_of n = \<lparr>uc_total = n, uc_free = n, uc_paid = 0, uc_maxDuration = 20\<rparr>"

definition success_body :: ApiBody where
  "success_body = \<lparr>b_status = Some ''success'', b_stage = None,
      b_original_filename = Some ''meeting.mkv'', b_duration_minutes = Some 12,
      b_transcript = Some ''Selamat pagi semua.'',
      b_summary = Some \<lparr>ringkasan_singkat = ''Rapat mingguan.'',
                         poin_penting = [''Rilis hari Jumat''], action_items = []\<rparr>,
      b_cache_key = None, b_error = None, b_detail = None, b_message = None\<rparr>"

definition partial_body :: ApiBody where
  "partial_body = \<lparr>b_status = Some ''partial'', b_stage = Some ''summarization'',
      b_original_filename = Some ''meeting.mkv'', b_duration_minutes = Some 12,
      b_transcript = Some ''Selamat pagi semua.'', b_summary = None,
      b_cache_key = Some ''abc123'', b_error = Some ''LLM timeout'', b_detail = None,
      b_message = Some ''Transkripsi berhasil''\<rparr>"

definition item :: "uuid \<Rightarrow> string \<Rightarrow> FileItem" where
  "item i n = \<lparr>fi_id = i, fi_name = n, fi_status = Processing, fi_progress = Some 10,
              fi_result = None, fi_partialResult = None, fi_error = None\<rparr>"

definition completed_item :: "uuid \<Rightarrow> string \<Rightarrow> ApiBody \<Rightarrow> FileItem" where
  "completed_item i n d = \<lparr>fi_id = i, fi_name = n, fi_status = Completed, fi_progress = Some 100,
                           fi_result = Some d, fi_partialResult = None, fi_error = None\<rparr>"

definition partial_item :: "uuid \<Rightarrow> string \<Rightarrow> ApiBody \<Rightarrow> FileItem" where
  "partial_item i n d = \<lparr>fi_id = i, fi_name = n, fi_status = Error, fi_progress = Some 100,
                         fi_result = None, fi_partialResult = Some d, fi_error = None\<rparr>"

definition ready :: Dashboard where
  "ready = \<lparr>files = [], selectedFileId = None, isDragging = False, isRetrying = False,
            userCredits = Some (credits_of 1), user_id = ''u1'', next_uuid = 0, in_flight = [],
            effects = [Fetch (GetBalance ''u1'')]\<rparr>"

definition uploading :: Dashboard where
  "uploading = \<lparr>files = [item 0 ''meeting.mkv''], selectedFileId = Some 0, isDragging = False,
      isRetrying = False, userCredits = Some (credits_of 1), user_id = ''u1'', next_uuid = 1,
      in_flight = [ProcessCall 0],
      effects = [Fetch (GetBalance ''u1''), ResetInput,
                 Fetch (PostProcess meeting_mkv (Some ''u1''))]\<rparr>"

definition awaiting_retry :: Dashboard where
  "awaiting_retry =
     \<lparr>files = [partial_item 0 ''meeting.mkv'' partial_body],
      selectedFileId = Some 0, isDragging = False, isRetrying = False,
      userCredits = Some (credits_of 1), user_id = ''u1'', next_uuid = 1, in_flight = [],
      effects = [Fetch (GetBalance ''u1''), ResetInput,
                 Fetch (PostProcess meeting_mkv (Some ''u1''))]\<rparr>"

definition busy_without_credits :: Dashboard where
  "busy_without_credits =
     \<lparr>files = [item 1 ''talk.MKV'', completed_item 0 ''meeting.mkv'' success_body],
      selectedFileId = Some 1, isDragging = False, isRetrying = False,
      userCredits = Some (credits_of 0), user_id = ''u1'', next_uuid = 2,
      in_flight = [ProcessCall 1],
      effects = [Fetch (GetBalance ''u1''), ResetInput,
                 Fetch (PostProcess meeting_mkv (Some ''u1'')),
                 Fetch (GetBalance ''u1''), ResetInput,
                 Fetch (PostProcess talk_mkv (Some ''u1''))]\<rparr>"

definition two_uploads :: "event list" where
  "two_uploads =
     [FileInput (Some standup_mp3), Drop (Some demo_mp4),
      MetadataLoaded standup_mp3 20 600, MetadataLoaded demo_mp4 20 300]"

definition both_processing :: Dashboard where
  "both_processing =
     \<lparr>files = [item 1 ''demo.mp4'', item 0 ''standup.mp3''],
      selectedFileId = Some 1, isDragging = False, isRetrying = False,
      userCredits = Some (credits_of 1), user_id = ''u1'', next_uuid = 2,
      in_flight = [ProcessCall 0, ProcessCall 1],
      effects = [Fetch (GetBalance ''u1''), ResetInput, CreateElement Audio, CreateElement Video,
                 Fetch (PostProcess standup_mp3 (Some ''u1'')),
                 Fetch (PostProcess demo_mp4 (Some ''u1''))]\<rparr>"

definition bukti_png :: File where
  "bukti_png = \<lparr>file_name = ''bukti.png'', file_size = 2000, file_type = ''image/png''\<rparr>"

definition scan_pdf :: File where
  "scan_pdf = \<lparr>file_name = ''scan.pdf'', file_size = 1000, file_type = ''application/pdf''\<rparr>"

definition large_png :: File where
  "large_png = \<lparr>file_name = ''foto.png'', file_size = 6000000, file_type = ''image/png''\<rparr>"

definition proof_form :: BuyCredits where
  "proof_form =
     \<lparr>selectedPackage = Some \<lparr>pkg_id = ''starter'', pkg_name = ''Starter'', pkg_credits = 5,
                               pkg_price = 25000, pkg_price_formatted = ''Rp 25.000''\<rparr>,
      proofFile = Some bukti_png, submitting = False, success = False, bc_error = None,
      bc_user = Some ''u1'', bc_sent = []\<rparr>"

definition signed_in :: Admin where
  "signed_in = \<lparr>purchases = [], history = [], adm_loading = False, adminKey = ''s3cret'',
                authenticated = True, selectedPurchase = None, actionLoading = Some ''p1'',
                adm_error = None, stored_admin_key = Some ''s3cret''\<rparr>"

section \<open>Lemmas on the operations\<close>

lemma updateFile_ids: "map fi_id (updateFile i (\<lambda>f. g f) fs) = map fi_id fs"
  if "\<And>f. fi_id (g f) = fi_id f"
  using that by (induction fs) (simp_all add: updateFile_def)

lemma updateFile_members:
  assumes "f' \<in> set (updateFile i g fs)"
  shows "(\<exists>f \<in> set fs. fi_id f = i \<and> f' = g f) \<or> (f' \<in> set fs \<and> fi_id f' \<noteq> i)"
  using assms by (induction fs) (auto simp: updateFile_def split: if_splits)

lemma updateFile_hit:
  assumes "f' \<in> set (updateFile i g fs)" and "fi_id f' = i"
  obtains f where "f \<in> set fs" and "f' = g f"
  using updateFile_members [OF assms(1)] assms(2) by blast

lemma updateFile_miss:
  assumes "\<forall>f \<in> set fs. fi_id f \<noteq> i"
  shows "updateFile i g fs = fs"
  using assms by (induction fs) (simp_all add: updateFile_def)

lemma id_listed:
  assumes "map fi_id fs' = map fi_id fs" and "i \<in> fi_id ` set fs"
  shows "i \<in> fi_id ` set fs'"
  using assms by (metis list.set_map)

lemma find_by_id:
  assumes "i \<in> fi_id ` set fs"
  shows "\<exists>f. find (\<lambda>f. fi_id f = i) fs = Some f \<and> f \<in> set fs \<and> fi_id f = i"
  using assms by (induction fs) auto

lemma find_in_set:
  assumes "find P xs = Some x"
  shows "x \<in> set xs \<and> P x"
  using assms by (induction xs) (auto split: if_splits)

lemma mounted_eq:
  "mounted uid = \<lparr>files = [], selectedFileId = None, isDragging = False, isRetrying = False,
        userCredits = None, user_id = uid, next_uuid = 0, in_flight = [BalanceCall],
        effects = [Fetch (GetBalance uid)]\<rparr>"
  by (simp add: mounted_def fetchUserCredits_def)

lemma chooseFile_unsupported:
  assumes "extension lc f \<notin> set ALLOWED_EXTENSIONS"
  shows "chooseFile lc (Some f) s = s\<lparr>effects := effects s @ [UnsupportedFormat]\<rparr>"
  using assms by (simp add: chooseFile_def validateFile_def alert_def UnsupportedFormat_def)

lemma chooseFile_probing:
  assumes "validateFile lc f = None \<and> validateDuration f = Probing kind"
  shows "chooseFile lc (Some f) s
       = s\<lparr>effects := effects s @ [CreateElement kind],
           in_flight := in_flight s @ [DurationProbe f (getMaxDuration s)]\<rparr>"
  using assms by (simp add: chooseFile_def)

lemma handleFileInput_immediate:
  assumes "\<not> isProcessing s" and "checkCredits s"
    and "validateFile lc f = None \<and> validateDuration f = Resolved None"
  shows "handleFileInput lc (Some f) s = processFile f (s\<lparr>effects := effects s @ [ResetInput]\<rparr>)"
  using assms
  by (simp add: handleFileInput_def chooseFile_def afterDuration_def isProcessing_def
      checkCredits_def)

text \<open>
  While a session is processing, both upload handlers return at their first statement:
  the file-input handler changes nothing, the drop handler only clears \<open>isDragging\<close>.
\<close>

lemma guards_refuse_while_processing:
  assumes "isProcessing s"
  shows "handleFileInput lc fo s = s" and "handleDrop lc fo s = s\<lparr>isDragging := False\<rparr>"
  using assms by (simp_all add: handleFileInput_def handleDrop_def isProcessing_def Let_def)

section \<open>The example states are reachable\<close>

lemma notes_txt_extension: "extension lc notes_txt \<notin> set ALLOWED_EXTENSIONS"
  by (simp add: notes_txt_def extension_def toLowerCase_def is_ascii_def last_segment_def ALLOWED_EXTENSIONS_def)

lemma meeting_mkv_valid: "validateFile lc meeting_mkv = None \<and> validateDuration meeting_mkv = Resolved None"
  by (simp add: meeting_mkv_def validateFile_def extension_def toLowerCase_def is_ascii_def last_segment_def
      ALLOWED_EXTENSIONS_def MAX_FILE_SIZE_def validateDuration_def startsWith_def)

lemma talk_mkv_valid: "validateFile lc talk_mkv = None \<and> validateDuration talk_mkv = Resolved None"
  by (simp add: talk_mkv_def validateFile_def extension_def toLowerCase_def is_ascii_def last_segment_def
      ALLOWED_EXTENSIONS_def MAX_FILE_SIZE_def validateDuration_def startsWith_def)

lemma talk_mkv_name: "file_name talk_mkv = ''talk.MKV''"
  by (simp add: talk_mkv_def)

lemma standup_mp3_valid:
  "validateFile lc standup_mp3 = None \<and> validateDuration standup_mp3 = Probing Audio"
  by (simp add: standup_mp3_def validateFile_def extension_def toLowerCase_def is_ascii_def last_segment_def
      ALLOWED_EXTENSIONS_def MAX_FILE_SIZE_def validateDuration_def startsWith_def)

lemma demo_mp4_valid:
  "validateFile lc demo_mp4 = None \<and> validateDuration demo_mp4 = Probing Video"
  by (simp add: demo_mp4_def validateFile_def extension_def toLowerCase_def is_ascii_def last_segment_def
      ALLOWED_EXTENSIONS_def MAX_FILE_SIZE_def validateDuration_def startsWith_def)

lemma file_names:
  "file_name standup_mp3 = ''standup.mp3''" "file_name demo_mp4 = ''demo.mp4''"
  by (simp_all add: standup_mp3_def demo_mp4_def)

lemma partial_body_fields:
  "b_status partial_body = Some ''partial''"
  "b_cache_key partial_body = Some ''abc123''"
  "b_error partial_body = Some ''LLM timeout''"
  by (simp_all add: partial_body_def)


lemma ready_reachable: "run lc [BalanceSettled (Some (balance_of 1))] (mounted ''u1'') = ready"
  by (simp add: mounted_eq resume_def fetchUserCredits_settle_def balance_of_def credits_of_def
      ready_def)

lemma ready_idle: "\<not> isProcessing ready \<and> checkCredits ready"
  by (simp add: ready_def isProcessing_def checkCredits_def credits_of_def)

lemma uploading_reachable: "run lc [FileInput (Some meeting_mkv)] ready = uploading"
  using handleFileInput_immediate [OF _ _ meeting_mkv_valid, where s = ready] ready_idle
  by (simp add: ready_def processFile_def updateFile_def uploading_def item_def meeting_mkv_def
      Let_def)

lemma awaiting_retry_reachable:
  "run lc [ProcessSettled 0 (Responded False partial_body)] uploading = awaiting_retry"
  by (simp add: uploading_def resume_def processFile_settle_def partial_body_fields
      updateFile_def item_def partial_item_def awaiting_retry_def)


lemma busy_without_credits_reachable:
  "run lc [ProcessSettled 0 (Responded True success_body), FileInput (Some talk_mkv),
        BalanceSettled (Some (balance_of 0))] uploading = busy_without_credits"
  by (simp add: uploading_def resume_def processFile_settle_def updateFile_def
      fetchUserCredits_def item_def completed_item_def handleFileInput_immediate talk_mkv_valid
      talk_mkv_name isProcessing_def checkCredits_def credits_of_def processFile_def
      fetchUserCredits_settle_def balance_of_def busy_without_credits_def Let_def)

lemma two_uploads_run: "run lc two_uploads ready = both_processing"
  by (simp add: two_uploads_def ready_def handleFileInput_def handleDrop_def isProcessing_def
      checkCredits_def credits_of_def chooseFile_probing [OF standup_mp3_valid]
      chooseFile_probing [OF demo_mp4_valid] getMaxDuration_def resume_def afterDuration_def
      onloadedmetadata_def processFile_def updateFile_def file_names item_def
      both_processing_def Let_def)

section \<open>Partial results and retry\<close>

text \<open>
  C1. When the response of \<open>/api/process\<close> for an upload in flight is not ok and its body
  has status \<open>partial\<close>, every session with the upload's id is left in status \<open>error\<close>
  with the whole body, and so its transcript and \<open>cache_key\<close> as received, as its
  \<open>partialResult\<close>. With that session selected and a non-empty \<open>cache_key\<close>, the retry
  click posts exactly that key to \<open>/api/retry-summary\<close>; and when the retry's response
  is ok, the session is completed with the retry's body, and so its transcript and
  summary, as its \<open>result\<close>.
\<close>

theorem C1_partial_then_retry:
  fixes s :: Dashboard and data' :: ApiBody and lc :: "string \<Rightarrow> string"
  assumes pend: "ProcessCall fileId \<in> set (in_flight s)"
    and listed: "fileId \<in> fi_id ` set (files s)"
    and sel: "selectedFileId s = Some fileId"
    and part: "b_status data = Some ''partial''"
    and key: "b_cache_key data = Some k" "k \<noteq> []"
  defines "s1 \<equiv> step lc (ProcessSettled fileId (Responded False data)) s"
  defines "s2 \<equiv> step lc RetryClick s1"
  defines "s3 \<equiv> step lc (RetrySettled fileId (Responded True data')) s2"
  shows "(\<forall>f \<in> set (files s1). fi_id f = fileId \<longrightarrow>
            fi_status f = Error \<and> fi_partialResult f = Some data)
       \<and> effects s2 = effects s1 @ [Fetch (PostRetrySummary k)]
       \<and> fileId \<in> fi_id ` set (files s3)
       \<and> (\<forall>f \<in> set (files s3). fi_id f = fileId \<longrightarrow>
            fi_status f = Completed \<and> fi_result f = Some data' \<and> fi_partialResult f = None)"
proof -
  let ?mark = "\<lambda>f. f\<lparr>fi_status := Error, fi_progress := Some 100, fi_partialResult := Some data\<rparr>"
  let ?fill = "\<lambda>f. f\<lparr>fi_status := Completed, fi_result := Some data',
                       fi_partialResult := None, fi_error := None\<rparr>"
  have s1: "s1 = s\<lparr>in_flight := remove1 (ProcessCall fileId) (in_flight s),
                   files := updateFile fileId ?mark (files s)\<rparr>"
    using pend part by (simp add: s1_def resume_def processFile_settle_def)
  have files1: "files s1 = updateFile fileId ?mark (files s)"
    by (simp add: s1)
  have stored: "fi_status f = Error \<and> fi_partialResult f = Some data"
    if "f \<in> set (files s1)" and "fi_id f = fileId" for f
  proof -
    from that obtain f0 where "f = ?mark f0"
      unfolding files1 by (rule updateFile_hit)
    then show ?thesis by simp
  qed
  have ids1: "map fi_id (files s1) = map fi_id (files s)"
    unfolding files1 by (rule updateFile_ids) simp
  from find_by_id [OF id_listed [OF ids1 listed]] obtain f1 where
    f1: "find (\<lambda>f. fi_id f = fileId) (files s1) = Some f1" "f1 \<in> set (files s1)" "fi_id f1 = fileId"
    by blast
  have chosen: "selectedFile s1 = Some f1"
    using sel f1(1) by (simp add: selectedFile_def s1)
  have p1: "fi_partialResult f1 = Some data"
    using stored [OF f1(2,3)] by simp
  have s2: "s2 = s1\<lparr>isRetrying := True,
                    effects := effects s1 @ [Fetch (PostRetrySummary k)],
                    in_flight := in_flight s1 @ [RetryCall fileId]\<rparr>"
    using chosen p1 key f1(3) by (simp add: s2_def handleRetrySummarization_def truthy_def)
  have files3: "files s3 = updateFile fileId ?fill (files s1)"
    by (simp add: s3_def s2 resume_def handleRetrySummarization_settle_def fetchUserCredits_def
        updateFile_def)
  have ids3: "map fi_id (files s3) = map fi_id (files s1)"
    unfolding files3 by (rule updateFile_ids) simp
  have final: "fi_status f = Completed \<and> fi_result f = Some data' \<and> fi_partialResult f = None"
    if "f \<in> set (files s3)" and "fi_id f = fileId" for f
  proof -
    from that obtain f0 where "f = ?fill f0"
      unfolding files3 by (rule updateFile_hit)
    then show ?thesis by simp
  qed
  have "fileId \<in> fi_id ` set (files s3)"
    by (rule id_listed [OF ids3 id_listed [OF ids1 listed]])
  moreover have "effects s2 = effects s1 @ [Fetch (PostRetrySummary k)]"
    by (simp add: s2)
  ultimately show ?thesis
    using stored final by blast
qed

text \<open>
  The theorem at the upload of \<open>meeting.mkv\<close>, answered with the partial body whose
  \<open>cache_key\<close> is \<open>abc123\<close>.
\<close>

theorem C1_witness:
  "\<forall>lc.
   ProcessCall 0 \<in> set (in_flight uploading)
   \<and> b_cache_key partial_body = Some ''abc123''
   \<and> effects (step lc RetryClick (step lc (ProcessSettled 0 (Responded False partial_body)) uploading))
       = effects (step lc (ProcessSettled 0 (Responded False partial_body)) uploading)
           @ [Fetch (PostRetrySummary ''abc123'')]
   \<and> 0 \<in> fi_id ` set (files (step lc (RetrySettled 0 (Responded True success_body))
               (step lc RetryClick (step lc (ProcessSettled 0 (Responded False partial_body)) uploading))))"
proof (intro allI)
  fix lc :: "string \<Rightarrow> string"
  show "ProcessCall 0 \<in> set (in_flight uploading)
   \<and> b_cache_key partial_body = Some ''abc123''
   \<and> effects (step lc RetryClick (step lc (ProcessSettled 0 (Responded False partial_body)) uploading))
       = effects (step lc (ProcessSettled 0 (Responded False partial_body)) uploading)
           @ [Fetch (PostRetrySummary ''abc123'')]
   \<and> 0 \<in> fi_id ` set (files (step lc (RetrySettled 0 (Responded True success_body))
               (step lc RetryClick (step lc (ProcessSettled 0 (Responded False partial_body)) uploading))))"
  proof -
    have a: "ProcessCall 0 \<in> set (in_flight uploading)"
      and b: "0 \<in> fi_id ` set (files uploading)"
      and c: "selectedFileId uploading = Some 0"
      by (simp_all add: uploading_def item_def)
    have d: "''abc123'' \<noteq> []" by simp
    from C1_partial_then_retry [OF a b c partial_body_fields(1) partial_body_fields(2) d,
        where data' = success_body and lc = lc]
    show ?thesis using a partial_body_fields(2) by blast
  qed
qed






section \<open>Pre-submission validation\<close>

text \<open>
  C2, as the code has it. Take a file whose extension, computed as the page computes it
  (a dot and the text after the last dot of the name, put in lower case by the engine),
  is outside the allow-list. In no state does either handler add a session, suspend on
  a probe or an upload, or issue a network call. What the user is told follows the order
  of the checks: while a session is processing the handlers return at once; otherwise,
  when the credit check fails, the alert is \<open>InsufficientCredits\<close>; otherwise the file is
  rejected with the \<open>UnsupportedFormat\<close> alert.
\<close>

theorem C2_unsupported_extension:
  assumes "extension lc f \<notin> set ALLOWED_EXTENSIONS"
  shows "files (handleFileInput lc (Some f) s) = files s
       \<and> files (handleDrop lc (Some f) s) = files s
       \<and> in_flight (handleFileInput lc (Some f) s) = in_flight s
       \<and> in_flight (handleDrop lc (Some f) s) = in_flight s
       \<and> network_calls (handleFileInput lc (Some f) s) = network_calls s
       \<and> network_calls (handleDrop lc (Some f) s) = network_calls s
       \<and> (isProcessing s \<longrightarrow>
            handleFileInput lc (Some f) s = s
          \<and> handleDrop lc (Some f) s = s\<lparr>isDragging := False\<rparr>)
       \<and> (\<not> isProcessing s \<and> \<not> checkCredits s \<longrightarrow>
            effects (handleFileInput lc (Some f) s) = effects s @ [InsufficientCredits, ResetInput]
          \<and> effects (handleDrop lc (Some f) s) = effects s @ [InsufficientCredits])
       \<and> (\<not> isProcessing s \<and> checkCredits s \<longrightarrow>
            effects (handleFileInput lc (Some f) s) = effects s @ [ResetInput, UnsupportedFormat]
          \<and> effects (handleDrop lc (Some f) s) = effects s @ [UnsupportedFormat])"
  by (simp add: handleFileInput_def handleDrop_def chooseFile_unsupported [OF assms] alert_def
      network_calls_def isProcessing_def checkCredits_def UnsupportedFormat_def
      InsufficientCredits_def Let_def)

text \<open>
  The theorem at \<open>notes.txt\<close>, chosen on the idle page with a balance of 1, for the case
  mapping of every engine.
\<close>

theorem C2_witness:
  "\<forall>lc.
   extension lc notes_txt \<notin> set ALLOWED_EXTENSIONS
   \<and> files (handleFileInput lc (Some notes_txt) ready) = []
   \<and> network_calls (handleDrop lc (Some notes_txt) ready) = network_calls ready
   \<and> effects (handleFileInput lc (Some notes_txt) ready)
       = [Fetch (GetBalance ''u1''), ResetInput, UnsupportedFormat]"
proof (intro allI)
  fix lc :: "string \<Rightarrow> string"
  show "extension lc notes_txt \<notin> set ALLOWED_EXTENSIONS
   \<and> files (handleFileInput lc (Some notes_txt) ready) = []
   \<and> network_calls (handleDrop lc (Some notes_txt) ready) = network_calls ready
   \<and> effects (handleFileInput lc (Some notes_txt) ready)
       = [Fetch (GetBalance ''u1''), ResetInput, UnsupportedFormat]"
    using C2_unsupported_extension [OF notes_txt_extension, where s = ready] ready_idle
    by (simp add: notes_txt_extension) (simp add: ready_def)
qed

text \<open>
  C2 as stated asks for \<open>UnsupportedFormat\<close> in every case. On the page as mounted,
  before any balance has arrived, \<open>notes.txt\<close> is refused by the credit check, which
  runs first: the alert is \<open>InsufficientCredits\<close>.
\<close>

theorem C2_counterexample:
  "\<forall>lc.
   extension lc notes_txt \<notin> set ALLOWED_EXTENSIONS
   \<and> effects (handleFileInput lc (Some notes_txt) (mounted ''u1''))
       = [Fetch (GetBalance ''u1''), InsufficientCredits, ResetInput]
   \<and> UnsupportedFormat \<notin> set (effects (handleFileInput lc (Some notes_txt) (mounted ''u1'')))"
proof (intro allI)
  fix lc :: "string \<Rightarrow> string"
  show "extension lc notes_txt \<notin> set ALLOWED_EXTENSIONS
   \<and> effects (handleFileInput lc (Some notes_txt) (mounted ''u1''))
       = [Fetch (GetBalance ''u1''), InsufficientCredits, ResetInput]
   \<and> UnsupportedFormat \<notin> set (effects (handleFileInput lc (Some notes_txt) (mounted ''u1'')))"
    by (simp add: notes_txt_extension mounted_eq handleFileInput_def isProcessing_def
        checkCredits_def InsufficientCredits_def UnsupportedFormat_def)
qed

text \<open>
  C3, as the code has it. With a balance of \<open>free + paid < 1\<close>, whatever is chosen or
  dropped (any file or none), neither handler adds a session, suspends on a probe or
  upload, creates a media element or issues a network call; and when no session is
  processing, the attempt is refused with the \<open>InsufficientCredits\<close> alert.
\<close>

theorem C3_insufficient_credits:
  assumes "userCredits s = Some c" and "uc_free c + uc_paid c < 1"
  shows "files (handleFileInput lc fo s) = files s
       \<and> files (handleDrop lc fo s) = files s
       \<and> in_flight (handleFileInput lc fo s) = in_flight s
       \<and> in_flight (handleDrop lc fo s) = in_flight s
       \<and> media_elements (handleFileInput lc fo s) = media_elements s
       \<and> media_elements (handleDrop lc fo s) = media_elements s
       \<and> network_calls (handleFileInput lc fo s) = network_calls s
       \<and> network_calls (handleDrop lc fo s) = network_calls s
       \<and> (\<not> isProcessing s \<longrightarrow>
            effects (handleFileInput lc fo s) = effects s @ [InsufficientCredits, ResetInput]
          \<and> effects (handleDrop lc fo s) = effects s @ [InsufficientCredits])"
  using assms
  by (simp add: handleFileInput_def handleDrop_def checkCredits_def isProcessing_def alert_def
      media_elements_def network_calls_def InsufficientCredits_def Let_def)

theorem C3_witness:
  "\<forall>lc.
   userCredits (ready\<lparr>userCredits := Some (credits_of 0)\<rparr>) = Some (credits_of 0)
   \<and> effects (handleFileInput lc (Some meeting_mkv) (ready\<lparr>userCredits := Some (credits_of 0)\<rparr>))
       = [Fetch (GetBalance ''u1''), InsufficientCredits, ResetInput]
   \<and> files (handleDrop lc (Some meeting_mkv) (ready\<lparr>userCredits := Some (credits_of 0)\<rparr>)) = []"
proof (intro allI)
  fix lc :: "string \<Rightarrow> string"
  show "userCredits (ready\<lparr>userCredits := Some (credits_of 0)\<rparr>) = Some (credits_of 0)
   \<and> effects (handleFileInput lc (Some meeting_mkv) (ready\<lparr>userCredits := Some (credits_of 0)\<rparr>))
       = [Fetch (GetBalance ''u1''), InsufficientCredits, ResetInput]
   \<and> files (handleDrop lc (Some meeting_mkv) (ready\<lparr>userCredits := Some (credits_of 0)\<rparr>)) = []"
    using C3_insufficient_credits [where s = "ready\<lparr>userCredits := Some (credits_of 0)\<rparr>"
        and c = "credits_of 0" and fo = "Some meeting_mkv" and lc = lc]
    by (simp add: ready_def credits_of_def isProcessing_def)
qed

text \<open>
  C3 as stated asks for \<open>InsufficientCredits\<close> on every attempt. In the state reached
  when a second upload is still processing and the refreshed balance is 0, the handler
  returns at its processing guard, before the credit check, and alerts nothing.
\<close>

theorem C3_counterexample:
  "\<forall>lc.
   userCredits busy_without_credits = Some (credits_of 0)
   \<and> uc_free (credits_of 0) + uc_paid (credits_of 0) < 1
   \<and> effects (handleFileInput lc (Some meeting_mkv) busy_without_credits)
       = effects busy_without_credits
   \<and> InsufficientCredits \<notin> set (effects (handleFileInput lc (Some meeting_mkv) busy_without_credits))"
proof (intro allI)
  fix lc :: "string \<Rightarrow> string"
  show "userCredits busy_without_credits = Some (credits_of 0)
   \<and> uc_free (credits_of 0) + uc_paid (credits_of 0) < 1
   \<and> effects (handleFileInput lc (Some meeting_mkv) busy_without_credits)
       = effects busy_without_credits
   \<and> InsufficientCredits \<notin> set (effects (handleFileInput lc (Some meeting_mkv) busy_without_credits))"
  proof -
    have busy: "isProcessing busy_without_credits"
      by (simp add: busy_without_credits_def isProcessing_def item_def)
    have quiet: "InsufficientCredits \<notin> set (effects busy_without_credits)"
      by (simp add: busy_without_credits_def InsufficientCredits_def)
    have "userCredits busy_without_credits = Some (credits_of 0)"
      by (simp add: busy_without_credits_def)
    moreover have "uc_free (credits_of 0) + uc_paid (credits_of 0) < 1"
      by (simp add: credits_of_def)
    ultimately show ?thesis
      using quiet by (simp add: guards_refuse_while_processing(1) [OF busy])
  qed
qed

section \<open>Successful processing\<close>

text \<open>
  C4. When the response of \<open>/api/process\<close> for an upload in flight is ok, every session
  with the upload's id becomes \<open>completed\<close> with the response body as its \<open>result\<close>,
  the other sessions and the order of the list are untouched, and the effects grow by
  exactly one \<open>GET /api/credits/balance\<close>.
\<close>

theorem C4_success_completes_and_refreshes_once:
  assumes "ProcessCall fileId \<in> set (in_flight s)"
  shows "map fi_id (files (step lc (ProcessSettled fileId (Responded True data)) s)) = map fi_id (files s)
       \<and> (\<forall>f \<in> set (files (step lc (ProcessSettled fileId (Responded True data)) s)).
             if fi_id f = fileId then fi_status f = Completed \<and> fi_result f = Some data
             else f \<in> set (files s))
       \<and> effects (step lc (ProcessSettled fileId (Responded True data)) s)
           = effects s @ [Fetch (GetBalance (user_id s))]"
proof -
  let ?done = "\<lambda>f. f\<lparr>fi_status := Completed, fi_progress := Some 100, fi_result := Some data\<rparr>"
  have st: "step lc (ProcessSettled fileId (Responded True data)) s
          = fetchUserCredits (s\<lparr>in_flight := remove1 (ProcessCall fileId) (in_flight s),
                                files := updateFile fileId ?done (files s)\<rparr>)"
    using assms by (simp add: resume_def processFile_settle_def)
  have ids: "map fi_id (updateFile fileId ?done (files s)) = map fi_id (files s)"
    by (rule updateFile_ids) simp
  have each: "\<forall>f \<in> set (updateFile fileId ?done (files s)).
                if fi_id f = fileId then fi_status f = Completed \<and> fi_result f = Some data
                else f \<in> set (files s)"
    by (auto simp: updateFile_def)
  show ?thesis
    unfolding st using ids each by (simp add: fetchUserCredits_def)
qed

theorem C4_witness:
  "\<forall>lc.
   ProcessCall 0 \<in> set (in_flight uploading)
   \<and> map fi_status (files (step lc (ProcessSettled 0 (Responded True success_body)) uploading))
       = [Completed]
   \<and> map fi_result (files (step lc (ProcessSettled 0 (Responded True success_body)) uploading))
       = [Some success_body]
   \<and> effects (step lc (ProcessSettled 0 (Responded True success_body)) uploading)
       = effects uploading @ [Fetch (GetBalance ''u1'')]"
proof (intro allI)
  fix lc :: "string \<Rightarrow> string"
  show "ProcessCall 0 \<in> set (in_flight uploading)
   \<and> map fi_status (files (step lc (ProcessSettled 0 (Responded True success_body)) uploading))
       = [Completed]
   \<and> map fi_result (files (step lc (ProcessSettled 0 (Responded True success_body)) uploading))
       = [Some success_body]
   \<and> effects (step lc (ProcessSettled 0 (Responded True success_body)) uploading)
       = effects uploading @ [Fetch (GetBalance ''u1'')]"
  proof -
    have inflight: "ProcessCall 0 \<in> set (in_flight uploading)"
      by (simp add: uploading_def)
    have ids: "map fi_id (files uploading) = [0]"
      by (simp add: uploading_def item_def)
    from C4_success_completes_and_refreshes_once [OF inflight, where data = success_body and lc = lc]
    have c: "map fi_id (files (step lc (ProcessSettled 0 (Responded True success_body)) uploading)) = [0]"
      and e: "\<forall>f \<in> set (files (step lc (ProcessSettled 0 (Responded True success_body)) uploading)).
               if fi_id f = 0 then fi_status f = Completed \<and> fi_result f = Some success_body
               else f \<in> set (files uploading)"
      and fx: "effects (step lc (ProcessSettled 0 (Responded True success_body)) uploading)
             = effects uploading @ [Fetch (GetBalance (user_id uploading))]"
      by (simp_all add: ids)
    from c obtain f where fs: "files (step lc (ProcessSettled 0 (Responded True success_body)) uploading) = [f]"
      and "fi_id f = 0"
      by (cases "files (step lc (ProcessSettled 0 (Responded True success_body)) uploading)") auto
    with e have "fi_status f = Completed \<and> fi_result f = Some success_body" by simp
    with fs fx inflight show ?thesis by (simp add: uploading_def)
  qed
qed

section \<open>One upload at a time\<close>

text \<open>
  C6 says that two sessions are never processing at once. The handlers test
  \<open>isProcessing\<close> before they wait for the duration probe and start the upload after
  it without testing again. With a balance of 1: \<open>standup.mp3\<close> is chosen, \<open>demo.mp4\<close> is
  dropped while the first probe is pending, then both probes report their metadata. The
  list then holds two sessions, both processing.
\<close>

theorem C6_two_sessions_processing:
  "\<forall>lc.
   map fi_status (files (run lc (BalanceSettled (Some (balance_of 1)) # two_uploads)
                           (mounted ''u1'')))
     = [Processing, Processing]"
proof (intro allI)
  fix lc :: "string \<Rightarrow> string"
  show "map fi_status (files (run lc (BalanceSettled (Some (balance_of 1)) # two_uploads)
                           (mounted ''u1'')))
     = [Processing, Processing]"
  proof -
    have "run lc (BalanceSettled (Some (balance_of 1)) # two_uploads) (mounted ''u1'')
        = run lc two_uploads (run lc [BalanceSettled (Some (balance_of 1))] (mounted ''u1''))"
      by simp
    also have "\<dots> = both_processing"
      unfolding ready_reachable by (rule two_uploads_run)
    finally show ?thesis
      by (simp add: both_processing_def item_def)
  qed
qed

section \<open>At most one of result, partial result and error\<close>

lemma count_list_remove1_le: "count_list (remove1 k q) x \<le> count_list q x"
  by (induction q) auto

lemma count_list_remove1_self:
  "k \<in> set q \<Longrightarrow> count_list (remove1 k q) k = count_list q k - 1"
  by (induction q) auto

lemma once_then_gone:
  assumes "count_list q k \<le> 1"
  shows "k \<notin> set (remove1 k q)"
proof (cases "k \<in> set q")
  case True
  then have "count_list (remove1 k q) k = 0"
    using assms by (simp add: count_list_remove1_self)
  then show ?thesis using count_list_0_iff [of "remove1 k q" k] by blast
next
  case False
  then show ?thesis by (simp add: remove1_idem)
qed

lemma calls_ok_remove1:
  assumes "calls_ok fs n q"
  shows "calls_ok fs n (remove1 k q)"
  unfolding calls_ok_def
proof (intro allI conjI impI)
  fix i
  note sub = set_remove1_subset [of k q]
  show "i < n" if "ProcessCall i \<in> set (remove1 k q)"
    using assms that sub unfolding calls_ok_def by blast
  show "\<forall>f \<in> set fs. fi_id f = i \<longrightarrow> blank f" if "ProcessCall i \<in> set (remove1 k q)"
    using assms that sub unfolding calls_ok_def by blast
  show "count_list (remove1 k q) (ProcessCall i) \<le> 1"
    using assms count_list_remove1_le [of k q "ProcessCall i"] unfolding calls_ok_def
    by (meson le_trans)
  show "i < n" if "RetryCall i \<in> set (remove1 k q)"
    using assms that sub unfolding calls_ok_def by blast
  show "ProcessCall i \<notin> set (remove1 k q)" if "RetryCall i \<in> set (remove1 k q)"
    using assms that sub unfolding calls_ok_def by blast
qed

lemma calls_ok_push_probe: "calls_ok fs n (q @ [DurationProbe f m]) = calls_ok fs n q"
  by (simp add: calls_ok_def)

lemma calls_ok_push_balance: "calls_ok fs n (q @ [BalanceCall]) = calls_ok fs n q"
  by (simp add: calls_ok_def)

lemma blank_exclusive: "blank f \<Longrightarrow> exclusive f"
  by (simp add: blank_def exclusive_def)

lemma set_one_exclusive:
  assumes "blank f"
  shows "exclusive (f\<lparr>fi_status := st, fi_progress := pr, fi_error := Some m\<rparr>)"
    and "exclusive (f\<lparr>fi_status := st, fi_progress := pr, fi_partialResult := Some d\<rparr>)"
    and "exclusive (f\<lparr>fi_status := st, fi_progress := pr, fi_result := Some d\<rparr>)"
  using assms by (simp_all add: blank_def exclusive_def)

lemma updateFile_ok:
  assumes files: "files_ok fs n" and calls: "calls_ok fs n q"
    and gone: "ProcessCall i \<notin> set q'"
    and sub: "set q' \<subseteq> set q"
    and fewer: "\<And>x. count_list q' x \<le> count_list q x"
    and same_id: "\<And>f. fi_id (g f) = fi_id f"
    and excl: "\<And>f. f \<in> set fs \<Longrightarrow> fi_id f = i \<Longrightarrow> exclusive (g f)"
  shows "files_ok (updateFile i g fs) n \<and> calls_ok (updateFile i g fs) n q'"
proof
  show "files_ok (updateFile i g fs) n"
    unfolding files_ok_def
  proof
    fix f' assume "f' \<in> set (updateFile i g fs)"
    from updateFile_members [OF this] show "fi_id f' < n \<and> exclusive f'"
    proof
      assume "\<exists>f \<in> set fs. fi_id f = i \<and> f' = g f"
      then obtain f where "f \<in> set fs" "fi_id f = i" "f' = g f" by blast
      then show ?thesis
        using files excl same_id unfolding files_ok_def by metis
    next
      assume "f' \<in> set fs \<and> fi_id f' \<noteq> i"
      then show ?thesis using files unfolding files_ok_def by blast
    qed
  qed
  show "calls_ok (updateFile i g fs) n q'"
    unfolding calls_ok_def
  proof (intro allI conjI impI ballI)
    fix j
    show "j < n" if "ProcessCall j \<in> set q'"
      using calls that sub unfolding calls_ok_def by blast
    show "blank f'" if p: "ProcessCall j \<in> set q'" and m: "f' \<in> set (updateFile i g fs)"
      and j: "fi_id f' = j" for f'
    proof -
      have "j \<noteq> i" using p gone by blast
      with updateFile_members [OF m] j same_id have "f' \<in> set fs" by metis
      moreover have "ProcessCall j \<in> set q" using p sub by blast
      ultimately show ?thesis using calls j unfolding calls_ok_def by blast
    qed
    show "count_list q' (ProcessCall j) \<le> 1"
      using calls fewer [of "ProcessCall j"] unfolding calls_ok_def by (meson le_trans)
    show "j < n" if "RetryCall j \<in> set q'"
      using calls that sub unfolding calls_ok_def by blast
    show "ProcessCall j \<notin> set q'" if "RetryCall j \<in> set q'"
      using calls that sub unfolding calls_ok_def by blast
  qed
qed

lemma push_process:
  assumes files: "files_ok fs n" and calls: "calls_ok fs n q"
    and b: "blank b" "fi_id b = n"
  shows "files_ok (b # fs) (Suc n) \<and> calls_ok (b # fs) (Suc n) (q @ [ProcessCall n])"
proof
  show "files_ok (b # fs) (Suc n)"
    using files b blank_exclusive [of b] by (auto simp: files_ok_def less_Suc_eq)
  have fresh: "ProcessCall n \<notin> set q"
    using calls unfolding calls_ok_def by (meson less_irrefl)
  have old: "fi_id f \<noteq> n" if "f \<in> set fs" for f
    using files that unfolding files_ok_def by auto
  show "calls_ok (b # fs) (Suc n) (q @ [ProcessCall n])"
    unfolding calls_ok_def
  proof (intro allI conjI impI ballI)
    fix j
    show "j < Suc n" if "ProcessCall j \<in> set (q @ [ProcessCall n])"
      using calls that unfolding calls_ok_def by (auto simp: less_Suc_eq)
    show "blank f" if p: "ProcessCall j \<in> set (q @ [ProcessCall n])"
      and m: "f \<in> set (b # fs)" and j: "fi_id f = j" for f
    proof (cases "f = b")
      case True
      then show ?thesis using b by simp
    next
      case False
      then have f: "f \<in> set fs" using m by simp
      then have "j \<noteq> n" using old j by blast
      then have "ProcessCall j \<in> set q" using p by simp
      then show ?thesis using calls f j unfolding calls_ok_def by blast
    qed
    show "count_list (q @ [ProcessCall n]) (ProcessCall j) \<le> 1"
    proof (cases "j = n")
      case True
      then show ?thesis using fresh by simp
    next
      case False
      then show ?thesis using calls unfolding calls_ok_def by simp
    qed
    show "j < Suc n" if "RetryCall j \<in> set (q @ [ProcessCall n])"
      using calls that unfolding calls_ok_def by (auto simp: less_Suc_eq)
    show "ProcessCall j \<notin> set (q @ [ProcessCall n])" if "RetryCall j \<in> set (q @ [ProcessCall n])"
      using calls that unfolding calls_ok_def by auto
  qed
qed

lemma push_retry:
  assumes files: "files_ok fs n" and calls: "calls_ok fs n q"
    and f: "f \<in> set fs" "\<not> blank f"
  shows "calls_ok fs n (q @ [RetryCall (fi_id f)])"
proof -
  have idle: "ProcessCall (fi_id f) \<notin> set q"
    using calls f unfolding calls_ok_def by blast
  have known: "fi_id f < n"
    using files f unfolding files_ok_def by blast
  show ?thesis
    using calls idle known unfolding calls_ok_def by auto
qed

lemma consistent_irrelevant:
  "consistent (s\<lparr>effects := e\<rparr>) = consistent s"
  "consistent (s\<lparr>isDragging := b\<rparr>) = consistent s"
  "consistent (s\<lparr>isRetrying := b\<rparr>) = consistent s"
  "consistent (s\<lparr>selectedFileId := i\<rparr>) = consistent s"
  "consistent (s\<lparr>userCredits := c\<rparr>) = consistent s"
  by (simp_all add: consistent_def)

lemma consistent_alert: "consistent (alert m s) = consistent s"
  by (simp add: alert_def consistent_irrelevant)

lemma consistent_remove1:
  assumes "consistent s"
  shows "consistent (s\<lparr>in_flight := remove1 k (in_flight s)\<rparr>)"
  using assms calls_ok_remove1 by (simp add: consistent_def)

lemma consistent_fetchUserCredits: "consistent (fetchUserCredits s) = consistent s"
  by (simp add: fetchUserCredits_def consistent_def calls_ok_push_balance)

lemma consistent_push_probe:
  "consistent (s\<lparr>effects := e, in_flight := in_flight s @ [DurationProbe file m]\<rparr>) = consistent s"
  by (simp add: consistent_def calls_ok_push_probe)

lemma consistent_mounted: "consistent (mounted uid)"
  by (simp add: mounted_def fetchUserCredits_def consistent_def files_ok_def calls_ok_def)

lemma consistent_processFile:
  assumes "consistent s"
  shows "consistent (processFile file s)"
proof -
  let ?b = "\<lparr>fi_id = next_uuid s, fi_name = file_name file, fi_status = Processing,
             fi_progress = Some 10, fi_result = None, fi_partialResult = None,
             fi_error = None\<rparr>"
  have files: "files_ok (files s) (next_uuid s)" and calls: "calls_ok (files s) (next_uuid s) (in_flight s)"
    using assms by (simp_all add: consistent_def)
  have fresh: "\<forall>f \<in> set (files s). fi_id f \<noteq> next_uuid s"
    using files unfolding files_ok_def by auto
  have rest: "updateFile (next_uuid s) g (files s) = files s" for g
    by (rule updateFile_miss [OF fresh])
  have view: "files (processFile file s) = ?b # files s"
    "next_uuid (processFile file s) = Suc (next_uuid s)"
    "in_flight (processFile file s) = in_flight s @ [ProcessCall (next_uuid s)]"
    using rest [unfolded updateFile_def] by (simp_all add: processFile_def updateFile_def Let_def)
  have "blank ?b" "fi_id ?b = next_uuid s"
    by (simp_all add: blank_def)
  from push_process [OF files calls this] show ?thesis
    unfolding consistent_def view .
qed

lemma consistent_handleRetrySummarization:
  assumes "consistent s"
  shows "consistent (handleRetrySummarization s)"
proof (cases "selectedFile s")
  case None
  then show ?thesis using assms by (simp add: handleRetrySummarization_def)
next
  case (Some f)
  show ?thesis
  proof (cases "fi_partialResult f")
    case None
    then show ?thesis using assms Some by (simp add: handleRetrySummarization_def)
  next
    case (Some p)
    have "f \<in> set (files s)"
      using \<open>selectedFile s = Some f\<close> find_in_set [of _ "files s" f]
      by (auto simp: selectedFile_def split: option.splits)
    moreover have "\<not> blank f"
      using Some by (simp add: blank_def)
    ultimately have "calls_ok (files s) (next_uuid s) (in_flight s @ [RetryCall (fi_id f)])"
      using assms push_retry unfolding consistent_def by blast
    then show ?thesis
      using assms Some \<open>selectedFile s = Some f\<close>
      by (simp add: handleRetrySummarization_def consistent_def)
  qed
qed

lemma consistent_processFile_settle:
  assumes ok: "consistent s" and pending: "ProcessCall i \<in> set (in_flight s)"
  shows "consistent (processFile_settle i r (s\<lparr>in_flight := remove1 (ProcessCall i) (in_flight s)\<rparr>))"
proof -
  let ?q = "remove1 (ProcessCall i) (in_flight s)"
  have files: "files_ok (files s) (next_uuid s)" and calls: "calls_ok (files s) (next_uuid s) (in_flight s)"
    using ok by (simp_all add: consistent_def)
  have once: "count_list (in_flight s) (ProcessCall i) \<le> 1"
    using calls unfolding calls_ok_def by blast
  have untouched: "blank f" if "f \<in> set (files s)" "fi_id f = i" for f
    using calls pending that unfolding calls_ok_def by blast
  have step: "consistent (s\<lparr>in_flight := ?q, files := updateFile i g (files s)\<rparr>)"
    if "\<And>f. fi_id (g f) = fi_id f" and "\<And>f. blank f \<Longrightarrow> exclusive (g f)" for g
    using updateFile_ok [OF files calls once_then_gone [OF once] set_remove1_subset
        count_list_remove1_le that(1)] that(2) untouched by (simp add: consistent_def)
  show ?thesis
  proof (cases r)
    case (Threw msg)
    from step [of "\<lambda>f. f\<lparr>fi_status := Error, fi_progress := Some 100, fi_error := Some msg\<rparr>"]
    show ?thesis
      using Threw by (simp add: processFile_settle_def set_one_exclusive)
  next
    case (Responded good data)
    from step [of "\<lambda>f. f\<lparr>fi_status := Error, fi_progress := Some 100,
                          fi_partialResult := Some data\<rparr>"]
      step [of "\<lambda>f. f\<lparr>fi_status := Error, fi_progress := Some 100,
                      fi_error := Some (process_error_text data)\<rparr>"]
      step [of "\<lambda>f. f\<lparr>fi_status := Completed, fi_progress := Some 100,
                      fi_result := Some data\<rparr>"]
    show ?thesis
      using Responded
      by (simp add: processFile_settle_def consistent_fetchUserCredits set_one_exclusive)
  qed
qed

lemma consistent_retry_settle:
  assumes ok: "consistent s" and pending: "RetryCall sel \<in> set (in_flight s)"
  shows "consistent (handleRetrySummarization_settle sel r
           (s\<lparr>in_flight := remove1 (RetryCall sel) (in_flight s)\<rparr>))"
proof -
  let ?q = "remove1 (RetryCall sel) (in_flight s)"
  let ?s = "s\<lparr>in_flight := ?q\<rparr>"
  have popped: "consistent ?s"
    by (rule consistent_remove1 [OF ok])
  have files: "files_ok (files s) (next_uuid s)" and calls: "calls_ok (files s) (next_uuid s) (in_flight s)"
    using ok by (simp_all add: consistent_def)
  have "ProcessCall sel \<notin> set (in_flight s)"
    using calls pending unfolding calls_ok_def by blast
  then have gone: "ProcessCall sel \<notin> set ?q"
    using set_remove1_subset [of "RetryCall sel" "in_flight s"] by blast
  have filled: "files_ok (updateFile sel g (files s)) (next_uuid s)
            \<and> calls_ok (updateFile sel g (files s)) (next_uuid s) ?q"
    if "\<And>f. fi_id (g f) = fi_id f" and "\<And>f. exclusive (g f)" for g
    using updateFile_ok [OF files calls gone set_remove1_subset count_list_remove1_le that(1)]
      that(2) by blast
  show ?thesis
  proof (cases r)
    case (Threw msg)
    then show ?thesis
      using popped
      by (simp add: handleRetrySummarization_settle_def consistent_alert consistent_irrelevant)
  next
    case (Responded good data)
    have fill: "exclusive (f\<lparr>fi_status := Completed, fi_result := Some data,
                            fi_partialResult := None, fi_error := None\<rparr>)" for f
      by (simp add: exclusive_def)
    from filled [of "\<lambda>f. f\<lparr>fi_status := Completed, fi_result := Some data,
                            fi_partialResult := None, fi_error := None\<rparr>"] fill
    have "consistent (?s\<lparr>files := updateFile sel
              (\<lambda>f. f\<lparr>fi_status := Completed, fi_result := Some data,
                     fi_partialResult := None, fi_error := None\<rparr>) (files s)\<rparr>)"
      by (simp add: consistent_def)
    then show ?thesis
      using Responded popped
      by (simp add: handleRetrySummarization_settle_def consistent_alert consistent_irrelevant
          consistent_fetchUserCredits updateFile_def)
  qed
qed

lemma consistent_afterDuration:
  assumes "consistent s"
  shows "consistent (afterDuration file durationError s)"
  using assms
  by (cases durationError) (simp_all add: afterDuration_def consistent_alert consistent_processFile)

lemma consistent_chooseFile:
  assumes "consistent s"
  shows "consistent (chooseFile lc fo s)"
proof (cases fo)
  case None
  then show ?thesis using assms by (simp add: chooseFile_def)
next
  case (Some chosen)
  show ?thesis
  proof (cases "validateFile lc chosen")
    case (Some error)
    then show ?thesis
      using assms \<open>fo = Some chosen\<close> by (simp add: chooseFile_def consistent_alert)
  next
    case None
    show ?thesis
    proof (cases "validateDuration chosen")
      case (Resolved durationError)
      then show ?thesis
        using assms None \<open>fo = Some chosen\<close>
        by (simp add: chooseFile_def consistent_afterDuration)
    next
      case (Probing kind)
      then show ?thesis
        using assms None \<open>fo = Some chosen\<close>
        by (simp add: chooseFile_def consistent_push_probe)
    qed
  qed
qed

lemma consistent_handleFileInput:
  assumes "consistent s"
  shows "consistent (handleFileInput lc fo s)"
proof -
  have "consistent (chooseFile lc fo (s\<lparr>effects := effects s @ [ResetInput]\<rparr>))"
    by (rule consistent_chooseFile) (simp add: consistent_irrelevant assms)
  then show ?thesis
    using assms by (simp add: handleFileInput_def consistent_irrelevant)
qed

lemma consistent_handleDrop:
  assumes "consistent s"
  shows "consistent (handleDrop lc fo s)"
proof -
  have idle: "consistent (s\<lparr>isDragging := False\<rparr>)"
    by (simp add: consistent_irrelevant assms)
  from consistent_chooseFile [OF idle] idle show ?thesis
    by (simp add: handleDrop_def Let_def consistent_alert)
qed

lemma consistent_step:
  assumes "consistent s"
  shows "consistent (step lc e s)"
proof (cases e)
  case (FileInput fo)
  then show ?thesis using assms by (simp add: consistent_handleFileInput)
next
  case (Drop fo)
  then show ?thesis using assms by (simp add: consistent_handleDrop)
next
  case DragOver
  then show ?thesis using assms by (simp add: handleDragOver_def consistent_irrelevant)
next
  case DragLeave
  then show ?thesis using assms by (simp add: consistent_irrelevant)
next
  case (SelectFile i)
  then show ?thesis using assms by (simp add: consistent_irrelevant)
next
  case (MetadataLoaded chosen mx duration)
  then show ?thesis
    using assms consistent_afterDuration [OF consistent_remove1 [OF assms]]
    by (simp add: resume_def)
next
  case (MetadataError chosen mx)
  then show ?thesis
    using assms consistent_afterDuration [OF consistent_remove1 [OF assms]]
    by (simp add: resume_def)
next
  case (ProcessSettled fileId r)
  then show ?thesis
    using assms consistent_processFile_settle [OF assms] by (simp add: resume_def)
next
  case RetryClick
  then show ?thesis using assms by (simp add: consistent_handleRetrySummarization)
next
  case (RetrySettled sel r)
  then show ?thesis
    using assms consistent_retry_settle [OF assms] by (simp add: resume_def)
next
  case (BalanceSettled r)
  have "consistent (fetchUserCredits_settle r s')" if "consistent s'" for s'
    using that by (cases r) (simp_all add: fetchUserCredits_settle_def consistent_irrelevant)
  from this [OF consistent_remove1 [OF assms]] BalanceSettled show ?thesis
    using assms by (simp add: resume_def)
qed

lemma consistent_run:
  assumes "consistent s"
  shows "consistent (run lc es s)"
  using assms by (induction es arbitrary: s) (simp_all add: consistent_step)

text \<open>
  C7. In every state the page reaches from its mounted state, by any sequence of
  events, each session has at most one of \<open>result\<close>, \<open>partialResult\<close> and \<open>error\<close>
  defined.
\<close>

theorem C7_sessions_mutually_exclusive:
  "\<forall>f \<in> set (files (run lc es (mounted uid))). exclusive f"
proof -
  have "consistent (run lc es (mounted uid))"
    by (rule consistent_run [OF consistent_mounted])
  then show ?thesis
    by (simp add: consistent_def files_ok_def)
qed

text \<open>
  The theorem at the run that leaves \<open>meeting.mkv\<close> with a partial result: the one
  session there is exclusive.
\<close>

theorem C7_witness:
  "\<forall>lc.
   files (run lc [BalanceSettled (Some (balance_of 1)), FileInput (Some meeting_mkv),
               ProcessSettled 0 (Responded False partial_body)] (mounted ''u1''))
     = [partial_item 0 ''meeting.mkv'' partial_body]
   \<and> exclusive (partial_item 0 ''meeting.mkv'' partial_body)"
proof (intro allI)
  fix lc :: "string \<Rightarrow> string"
  show "files (run lc [BalanceSettled (Some (balance_of 1)), FileInput (Some meeting_mkv),
               ProcessSettled 0 (Responded False partial_body)] (mounted ''u1''))
     = [partial_item 0 ''meeting.mkv'' partial_body]
   \<and> exclusive (partial_item 0 ''meeting.mkv'' partial_body)"
  proof -
    have "run lc [BalanceSettled (Some (balance_of 1)), FileInput (Some meeting_mkv),
               ProcessSettled 0 (Responded False partial_body)] (mounted ''u1'')
        = run lc [ProcessSettled 0 (Responded False partial_body)]
            (run lc [FileInput (Some meeting_mkv)]
               (run lc [BalanceSettled (Some (balance_of 1))] (mounted ''u1'')))"
      by simp
    then have reached: "run lc [BalanceSettled (Some (balance_of 1)), FileInput (Some meeting_mkv),
               ProcessSettled 0 (Responded False partial_body)] (mounted ''u1'') = awaiting_retry"
      unfolding ready_reachable uploading_reachable awaiting_retry_reachable .
    have listed: "files awaiting_retry = [partial_item 0 ''meeting.mkv'' partial_body]"
      by (simp add: awaiting_retry_def)
    from C7_sessions_mutually_exclusive
      [where es = "[BalanceSettled (Some (balance_of 1)), FileInput (Some meeting_mkv),
            ProcessSettled 0 (Responded False partial_body)]" and uid = "''u1''" and lc = lc]
    show ?thesis
      unfolding reached listed by simp
  qed
qed

section \<open>Empty lists in the result view\<close>

text \<open>
  C8 says that an empty list of key points renders an explicit message. With the section
  open, the dashboard renders an empty \<open>result-section-content\<close> and \<open>ResultDisplay\<close>
  an empty \<open>ul\<close>: nothing in either holds any text.
\<close>

theorem C8_empty_key_points_render_blank:
  "dashboard_key_points True [] = [Elem ''result-section-content'' []]
   \<and> ResultDisplay_points True [] = [Elem ''result-content'' [Elem ''ul'' []]]
   \<and> \<not> list_ex has_text (dashboard_key_points True [])
   \<and> \<not> list_ex has_text (ResultDisplay_points True [])"
  by (simp add: dashboard_key_points_def ResultDisplay_points_def)

text \<open>The action-items sections do render their message for an empty list.\<close>

lemma empty_action_items_render_message:
  "dashboard_action_items True []
     = [Elem ''result-section-content'' [Elem ''p'' [TextNode ''Tidak ada action items terdeteksi.'']]]"
  "ResultDisplay_actions True []
     = [Elem ''result-content'' [Elem ''p'' [TextNode ''Tidak ada action items yang terdeteksi'']]]"
  by (simp_all add: dashboard_action_items_def ResultDisplay_actions_def)

section \<open>Admin console and HTTP 401\<close>

text \<open>
  C9 says that a 401 on any admin call removes the stored key and brings back the login
  screen. An approve call answered with 401 leaves the console signed in and the key in
  storage.
\<close>

theorem C9_action_401_keeps_key:
  "authenticated (handleAction [] ''p1'' approve ''2026-01-01T00:00:00.000Z'' (Some 401) signed_in)
   \<and> stored_admin_key (handleAction [] ''p1'' approve ''2026-01-01T00:00:00.000Z'' (Some 401) signed_in)
       = Some ''s3cret''
   \<and> \<not> shows_login (handleAction [] ''p1'' approve ''2026-01-01T00:00:00.000Z'' (Some 401) signed_in)"
  by (simp add: handleAction_def res_ok_def signed_in_def shows_login_def)

text \<open>
  \<open>handleAction\<close> never signs out, whatever the response. \<open>fetchData\<close> signs out when
  the pending list answers 401, and never on account of the history list.
\<close>

lemma handleAction_never_signs_out:
  "authenticated (handleAction captured purchaseId act now res s) = authenticated s"
  "stored_admin_key (handleAction captured purchaseId act now res s) = stored_admin_key s"
  by (simp_all add: handleAction_def)

lemma fetchData_pending_401:
  assumes "lr_status pendingRes = 401"
  shows "shows_login (fetchData (Some (pendingRes, historyRes)) s)"
    and "stored_admin_key (fetchData (Some (pendingRes, historyRes)) s) = None"
  using assms by (simp_all add: fetchData_def shows_login_def)

lemma fetchData_history_401:
  assumes "lr_status pendingRes \<noteq> 401"
  shows "authenticated (fetchData (Some (pendingRes, historyRes)) s) = authenticated s"
    and "stored_admin_key (fetchData (Some (pendingRes, historyRes)) s) = stored_admin_key s"
  using assms by (simp_all add: fetchData_def split: option.splits)

section \<open>Properties of the purchase form\<close>

text \<open>
  C10. With a proof file already selected, choosing a file whose MIME type is outside
  the allow-list or whose size exceeds 5MB changes one cell only: the error message
  becomes the text of the check that failed, the type check first. The selected proof
  file is as it was; the submit button is disabled only while a submission is in
  flight, and submitting (with a package chosen and a user signed in, the conditions
  under which the form is shown) posts the earlier file.
\<close>

theorem C10_invalid_choice_keeps_previous_proof:
  assumes "proofFile s = Some f0"
    and "file_type f \<notin> set allowedTypes \<or> file_size f > MAX_PROOF_SIZE"
  shows "handleFileChange (Some f) s
           = s\<lparr>bc_error := Some (if file_type f \<notin> set allowedTypes
                                  then ''Hanya file gambar (JPEG, PNG, WebP) yang diizinkan''
                                  else ''Ukuran file maksimal 5MB'')\<rparr>
       \<and> bc_error (handleFileChange (Some f) s)
           = Some (if file_type f \<notin> set allowedTypes
                   then ''Hanya file gambar (JPEG, PNG, WebP) yang diizinkan''
                   else ''Ukuran file maksimal 5MB'')
       \<and> proofFile (handleFileChange (Some f) s) = Some f0
       \<and> submitDisabled (handleFileChange (Some f) s) = submitting s
       \<and> (\<forall>pkg uid. selectedPackage s = Some pkg \<and> bc_user s = Some uid \<longrightarrow>
            bc_sent (handleSubmit (handleFileChange (Some f) s))
              = bc_sent s @ [PostPurchase uid (pkg_id pkg) f0])"
  using assms by (auto simp: handleFileChange_def submitDisabled_def handleSubmit_def)

text \<open>
  The theorem at a PDF and at a PNG of 6MB, each chosen after \<open>bukti.png\<close>: the two
  messages, and the earlier file in the request.
\<close>

theorem C10_witness:
  "bc_error (handleFileChange (Some scan_pdf) proof_form)
     = Some ''Hanya file gambar (JPEG, PNG, WebP) yang diizinkan''
   \<and> bc_error (handleFileChange (Some large_png) proof_form)
     = Some ''Ukuran file maksimal 5MB''
   \<and> proofFile (handleFileChange (Some large_png) proof_form) = Some bukti_png
   \<and> bc_sent (handleSubmit (handleFileChange (Some scan_pdf) proof_form))
     = [PostPurchase ''u1'' ''starter'' bukti_png]"
proof -
  have chosen: "proofFile proof_form = Some bukti_png"
    and pkg: "selectedPackage proof_form
                = Some \<lparr>pkg_id = ''starter'', pkg_name = ''Starter'', pkg_credits = 5,
                        pkg_price = 25000, pkg_price_formatted = ''Rp 25.000''\<rparr>"
    and user: "bc_user proof_form = Some ''u1''"
    and sent: "bc_sent proof_form = []"
    by (simp_all add: proof_form_def)
  have pdf: "file_type scan_pdf \<notin> set allowedTypes \<or> file_size scan_pdf > MAX_PROOF_SIZE"
    by (simp add: scan_pdf_def allowedTypes_def)
  have pdf_type: "file_type scan_pdf \<notin> set allowedTypes"
    by (simp add: scan_pdf_def allowedTypes_def)
  have large: "file_type large_png \<notin> set allowedTypes \<or> file_size large_png > MAX_PROOF_SIZE"
    by (simp add: large_png_def MAX_PROOF_SIZE_def)
  have large_type: "\<not> file_type large_png \<notin> set allowedTypes"
    by (simp add: large_png_def allowedTypes_def)
  from C10_invalid_choice_keeps_previous_proof [OF chosen pdf]
    C10_invalid_choice_keeps_previous_proof [OF chosen large]
  show ?thesis
    using pdf_type large_type pkg user sent chosen by (simp add: handleSubmit_def)
qed

end
